theory Spec2Isabelle
  imports Complex_Main "HOL-Library.Sublist"
begin

section \<open>Numbers\<close>

text \<open>
  Every amount of the planner is a JavaScript number. The model keeps the three kinds of
  value such a number can be: \<open>NaN\<close>, the two infinities (\<open>Infinity True\<close> is the positive
  one) and the finite values. A finite value is an exact rational: the rounding of IEEE
  doubles and the sign of zero are not part of this model, so every theorem below speaks
  about the arithmetic the code writes down, carried out exactly.
\<close>

datatype number = NaN | Infinity bool | Finite rat

fun num_neg :: "number \<Rightarrow> number" where
  "num_neg NaN = NaN"
| "num_neg (Infinity s) = Infinity (\<not> s)"
| "num_neg (Finite x) = Finite (- x)"

fun num_add :: "number \<Rightarrow> number \<Rightarrow> number" where
  "num_add (Finite x) (Finite y) = Finite (x + y)"
| "num_add (Finite x) (Infinity t) = Infinity t"
| "num_add (Infinity s) (Finite y) = Infinity s"
| "num_add (Infinity s) (Infinity t) = (if s = t then Infinity s else NaN)"
| "num_add NaN b = NaN"
| "num_add a NaN = NaN"

definition num_sub :: "number \<Rightarrow> number \<Rightarrow> number" where
  "num_sub a b = num_add a (num_neg b)"

fun num_mul :: "number \<Rightarrow> number \<Rightarrow> number" where
  "num_mul (Finite x) (Finite y) = Finite (x * y)"
| "num_mul (Finite x) (Infinity t) = (if x = 0 then NaN else Infinity (t = (0 < x)))"
| "num_mul (Infinity s) (Finite y) = (if y = 0 then NaN else Infinity (s = (0 < y)))"
| "num_mul (Infinity s) (Infinity t) = Infinity (s = t)"
| "num_mul NaN b = NaN"
| "num_mul a NaN = NaN"

fun num_div :: "number \<Rightarrow> number \<Rightarrow> number" where
  "num_div (Finite x) (Finite y) =
     (if y = 0 then (if x = 0 then NaN else Infinity (0 < x)) else Finite (x / y))"
| "num_div (Finite x) (Infinity t) = Finite 0"
| "num_div (Infinity s) (Finite y) = Infinity (s = (0 \<le> y))"
| "num_div (Infinity s) (Infinity t) = NaN"
| "num_div NaN b = NaN"
| "num_div a NaN = NaN"



text \<open>\<open>ToBoolean\<close> on a number, and the operator \<open>a || b\<close> built on it.\<close>

fun ToBoolean :: "number \<Rightarrow> bool" where
  "ToBoolean NaN = False"
| "ToBoolean (Infinity s) = True"
| "ToBoolean (Finite x) = (x \<noteq> 0)"

definition num_or :: "number \<Rightarrow> number \<Rightarrow> number" where
  "num_or a b = (if ToBoolean a then a else b)"

text \<open>An integer counter of the code (a day number, a day count) read as a number.\<close>

definition num_of_int :: "int \<Rightarrow> number" where
  "num_of_int k = Finite (of_int k)"

section \<open>parseFloat\<close>

text \<open>
  \<open>parseFloat\<close> drops leading white space, then reads the longest prefix that is a
  decimal literal: an optional sign, then \<open>Infinity\<close>, or digits with an optional
  fraction, or a fraction alone, each with an optional exponent. When no prefix is a
  literal the result is \<open>NaN\<close>. Strings are byte strings here, so the white space
  recognised is the ASCII part of the language's white space.
\<close>

definition is_white :: "char \<Rightarrow> bool" where
  "is_white c = (c \<in> set [CHR 0x09, CHR 0x0A, CHR 0x0B, CHR 0x0C, CHR 0x0D, CHR '' ''])"

definition is_digit :: "char \<Rightarrow> bool" where
  "is_digit c = ((48::nat) \<le> of_char c \<and> (of_char c :: nat) \<le> 57)"

definition digit_val :: "char \<Rightarrow> nat" where
  "digit_val c = of_char c - 48"

definition digits_val :: "string \<Rightarrow> nat" where
  "digits_val ds = foldl (\<lambda>a c. 10 * a + digit_val c) 0 ds"

text \<open>The exponent part: \<open>e\<close> or \<open>E\<close>, an optional sign and at least one digit; anything
  else is not part of the literal and counts as exponent 0.\<close>

definition exponent_part :: "string \<Rightarrow> int" where
  "exponent_part s =
     (case s of
        [] \<Rightarrow> 0
      | c # r \<Rightarrow>
          if c = CHR ''e'' \<or> c = CHR ''E'' then
            (let (neg, u) = (case r of
                               [] \<Rightarrow> (False, r)
                             | d # r' \<Rightarrow> if d = CHR ''-'' then (True, r')
                                        else if d = CHR ''+'' then (False, r')
                                        else (False, r));
                 ds = takeWhile is_digit u
             in if ds = [] then 0
                else if neg then - int (digits_val ds) else int (digits_val ds))
          else 0)"

definition scale10 :: "rat \<Rightarrow> int \<Rightarrow> rat" where
  "scale10 x e = (if 0 \<le> e then x * 10 ^ nat e else x / 10 ^ nat (- e))"

definition parseFloat :: "string \<Rightarrow> number" where
  "parseFloat inputString =
     (let trimmed = dropWhile is_white inputString;
          (neg, u) = (case trimmed of
                        [] \<Rightarrow> (False, trimmed)
                      | c # r \<Rightarrow> if c = CHR ''-'' then (True, r)
                                 else if c = CHR ''+'' then (False, r)
                                 else (False, trimmed))
      in if prefix ''Infinity'' u then Infinity (\<not> neg)
         else
           (let ip = takeWhile is_digit u;
                r1 = dropWhile is_digit u;
                (fp, r2) = (case r1 of
                              [] \<Rightarrow> ([], r1)
                            | c # r \<Rightarrow> if c = CHR ''.''
                                       then (takeWhile is_digit r, dropWhile is_digit r)
                                       else ([], r1))
            in if ip = [] \<and> fp = [] then NaN
               else
                 (let mant = of_nat (digits_val ip) + of_nat (digits_val fp) / 10 ^ length fp;
                      v = scale10 mant (exponent_part r2)
                  in Finite (if neg then - v else v))))"

section \<open>Dates\<close>

text \<open>
  A \<open>Date\<close> holds a time value: milliseconds since the epoch. The model works in local
  time throughout (the offset of the time zone is left out), with the day arithmetic of
  the language standard: \<open>Day\<close>, \<open>DayFromYear\<close>, \<open>YearFromTime\<close>, \<open>MonthFromTime\<close>,
  \<open>DateFromTime\<close>, \<open>MakeDay\<close> and \<open>MakeDate\<close>. The range limit of time values is not
  modelled.
\<close>

definition msPerDay :: int where
  "msPerDay = 86400000"

definition Day :: "int \<Rightarrow> int" where
  "Day t = t div msPerDay"

definition DaysInYear :: "int \<Rightarrow> int" where
  "DaysInYear y =
     (if y mod 4 \<noteq> 0 then 365
      else if y mod 100 \<noteq> 0 then 366
      else if y mod 400 \<noteq> 0 then 365
      else 366)"

definition DayFromYear :: "int \<Rightarrow> int" where
  "DayFromYear y =
     365 * (y - 1970) + (y - 1969) div 4 - (y - 1901) div 100 + (y - 1601) div 400"

text \<open>
  \<open>YearFromTime t\<close> is the largest year whose first day is not after \<open>t\<close>. It is computed
  from an estimate by the mean length of a year, moved by one year where the estimate
  misses; lemma \<open>YearFromDay_bounds\<close> below shows that this is that largest year.
\<close>

definition YearFromDay :: "int \<Rightarrow> int" where
  "YearFromDay d =
     (let y = 1970 + (400 * d) div 146097
      in if d < DayFromYear y then y - 1
         else if DayFromYear (y + 1) \<le> d then y + 1
         else y)"

definition YearFromTime :: "int \<Rightarrow> int" where
  "YearFromTime t = YearFromDay (Day t)"

definition InLeapYear :: "int \<Rightarrow> int" where
  "InLeapYear t = (if DaysInYear (YearFromTime t) = 366 then 1 else 0)"

definition DayWithinYear :: "int \<Rightarrow> int" where
  "DayWithinYear t = Day t - DayFromYear (YearFromTime t)"

definition MonthFromTime :: "int \<Rightarrow> int" where
  "MonthFromTime t =
     (let w = DayWithinYear t; l = InLeapYear t
      in if w < 31 then 0
         else if w < 59 + l then 1
         else if w < 90 + l then 2
         else if w < 120 + l then 3
         else if w < 151 + l then 4
         else if w < 181 + l then 5
         else if w < 212 + l then 6
         else if w < 243 + l then 7
         else if w < 273 + l then 8
         else if w < 304 + l then 9
         else if w < 334 + l then 10
         else 11)"

definition DateFromTime :: "int \<Rightarrow> int" where
  "DateFromTime t =
     (let w = DayWithinYear t; l = InLeapYear t; m = MonthFromTime t
      in if m = 0 then w + 1
         else if m = 1 then w - 30
         else if m = 2 then w - 58 - l
         else if m = 3 then w - 89 - l
         else if m = 4 then w - 119 - l
         else if m = 5 then w - 150 - l
         else if m = 6 then w - 180 - l
         else if m = 7 then w - 211 - l
         else if m = 8 then w - 242 - l
         else if m = 9 then w - 272 - l
         else if m = 10 then w - 303 - l
         else w - 333 - l)"

text \<open>The day of the year on which month \<open>mn\<close> (0 to 11) begins; \<open>l\<close> is 1 in a leap year.\<close>

definition month_start :: "int \<Rightarrow> int \<Rightarrow> int" where
  "month_start l mn =
     (if mn = 0 then 0
      else if mn = 1 then 31
      else if mn = 2 then 59 + l
      else if mn = 3 then 90 + l
      else if mn = 4 then 120 + l
      else if mn = 5 then 151 + l
      else if mn = 6 then 181 + l
      else if mn = 7 then 212 + l
      else if mn = 8 then 243 + l
      else if mn = 9 then 273 + l
      else if mn = 10 then 304 + l
      else 334 + l)"

text \<open>\<open>MakeDay\<close>: months outside 0 to 11 carry into the year, and the day of the month is
  added as a plain offset, so day 0 is the day before the first of the month.\<close>

definition MakeDay :: "int \<Rightarrow> int \<Rightarrow> int \<Rightarrow> int" where
  "MakeDay year month dt =
     (let ym = year + month div 12;
          mn = month mod 12
      in DayFromYear ym + month_start (if DaysInYear ym = 366 then 1 else 0) mn + dt - 1)"

definition MakeDate :: "int \<Rightarrow> int \<Rightarrow> int" where
  "MakeDate day time = day * msPerDay + time"

text \<open>\<open>new Date(year, month, day)\<close>: a year from 0 to 99 is read as 1900 + year.\<close>

definition newDate :: "int \<Rightarrow> int \<Rightarrow> int \<Rightarrow> int" where
  "newDate year month day =
     (let yr = (if 0 \<le> year \<and> year \<le> 99 then 1900 + year else year)
      in MakeDate (MakeDay yr month day) 0)"

definition getDate :: "int \<Rightarrow> int" where
  "getDate t = DateFromTime t"

text \<open>\<open>d.setHours(0, 0, 0, 0)\<close>: the same day at midnight.\<close>

definition setHours0 :: "int \<Rightarrow> int" where
  "setHours0 t = MakeDate (Day t) 0"

section \<open>The month view\<close>

definition getDaysInMonth :: "int \<Rightarrow> int \<Rightarrow> int" where
  "getDaysInMonth year month = getDate (newDate year (month + 1) 0)"

text \<open>
  \<open>String(n)\<close> for an integer and \<open>padStart(2, '0')\<close>, as \<open>formatDateKey\<close> uses them.
\<close>

definition digit_char :: "nat \<Rightarrow> char" where
  "digit_char n = ''0123456789'' ! n"

function String_nat :: "nat \<Rightarrow> string" where
  "String_nat n =
     (if n < 10 then [digit_char n] else String_nat (n div 10) @ [digit_char (n mod 10)])"
  by pat_completeness auto
termination
  by (relation "measure (\<lambda>n. n)") auto

declare String_nat.simps [simp del]

definition String_int :: "int \<Rightarrow> string" where
  "String_int k = (if k < 0 then CHR ''-'' # String_nat (nat (- k)) else String_nat (nat k))"

definition padStart2 :: "string \<Rightarrow> string" where
  "padStart2 s = (if length s < 2 then replicate (2 - length s) CHR ''0'' @ s else s)"

definition formatDateKey :: "int \<Rightarrow> int \<Rightarrow> int \<Rightarrow> string" where
  "formatDateKey year month day =
     (let m = padStart2 (String_int (month + 1));
          d = padStart2 (String_int day)
      in String_int year @ ''-'' @ m @ ''-'' @ d)"

section \<open>The store\<close>

text \<open>
  The two tables of the schema, as rows in insertion order. Amounts are the text the
  handlers pass and receive, dates are ISO text, time stamps are time values and may be
  null. The database hands out ids from one sequence per table and enforces the
  constraints the schema declares: the primary keys, one plan per (year, month), one
  daily entry per (plan, date), and the reference from an entry to its plan. The
  conversion of amount text into \<open>numeric(12, 2)\<close> is not modelled: a row keeps the text
  it was given.
\<close>

record spendingPlan =
  p_id :: int
  p_year :: int
  p_month :: int
  p_totalAmount :: string
  p_desiredSaving :: string
  p_createdAt :: "int option"
  p_updatedAt :: "int option"

record dailyEntry =
  d_id :: int
  d_planId :: int
  d_date :: string
  d_spent :: string
  d_createdAt :: "int option"
  d_updatedAt :: "int option"

record database =
  spendingPlans :: "spendingPlan list"
  dailySpending :: "dailyEntry list"
  spendingPlans_seq :: int
  dailySpending_seq :: int

datatype db_error = UniqueViolation | ForeignKeyViolation

definition empty_db :: database where
  "empty_db = \<lparr>spendingPlans = [], dailySpending = [], spendingPlans_seq = 1,
     dailySpending_seq = 1\<rparr>"

text \<open>\<open>insert(spendingPlans).values(...).returning()\<close>: the sequence advances whether or
  not the row is accepted.\<close>

definition insert_plan ::
  "database \<Rightarrow> int \<Rightarrow> int \<Rightarrow> string \<Rightarrow> string \<Rightarrow> int \<Rightarrow> (db_error + spendingPlan) \<times> database" where
  "insert_plan db year month amount saving now =
     (let i = spendingPlans_seq db;
          db1 = db\<lparr>spendingPlans_seq := i + 1\<rparr>;
          row = \<lparr>p_id = i, p_year = year, p_month = month, p_totalAmount = amount,
                 p_desiredSaving = saving, p_createdAt = Some now, p_updatedAt = Some now\<rparr>
      in if i \<in> set (map p_id (spendingPlans db)) then (Inl UniqueViolation, db1)
         else if (year, month) \<in> set (map (\<lambda>p. (p_year p, p_month p)) (spendingPlans db))
         then (Inl UniqueViolation, db1)
         else (Inr row, db1\<lparr>spendingPlans := spendingPlans db @ [row]\<rparr>))"

definition insert_daily ::
  "database \<Rightarrow> int \<Rightarrow> string \<Rightarrow> string \<Rightarrow> int \<Rightarrow> (db_error + dailyEntry) \<times> database" where
  "insert_daily db planId dt spent now =
     (let i = dailySpending_seq db;
          db1 = db\<lparr>dailySpending_seq := i + 1\<rparr>;
          row = \<lparr>d_id = i, d_planId = planId, d_date = dt, d_spent = spent,
                 d_createdAt = Some now, d_updatedAt = Some now\<rparr>
      in if i \<in> set (map d_id (dailySpending db)) then (Inl UniqueViolation, db1)
         else if (planId, dt) \<in> set (map (\<lambda>e. (d_planId e, d_date e)) (dailySpending db))
         then (Inl UniqueViolation, db1)
         else if planId \<notin> set (map p_id (spendingPlans db)) then (Inl ForeignKeyViolation, db1)
         else (Inr row, db1\<lparr>dailySpending := dailySpending db @ [row]\<rparr>))"

definition getOrCreatePlan ::
  "database \<Rightarrow> int \<Rightarrow> int \<Rightarrow> int \<Rightarrow> (db_error + spendingPlan) \<times> database" where
  "getOrCreatePlan db year month now =
     (case find (\<lambda>p. p_year p = year \<and> p_month p = month) (spendingPlans db) of
        Some plan \<Rightarrow> (Inr plan, db)
      | None \<Rightarrow> insert_plan db year month ''0'' ''0'' now)"

text \<open>\<open>update(spendingPlans).set(...).where(eq(id, planId)).returning()\<close>; the handler
  returns the first updated row, which is undefined when no row has that id.\<close>

definition updatePlanSettings ::
  "database \<Rightarrow> int \<Rightarrow> string \<Rightarrow> string \<Rightarrow> int \<Rightarrow> spendingPlan option \<times> database" where
  "updatePlanSettings db planId totalAmount desiredSaving now =
     (let rows = map (\<lambda>p. if p_id p = planId
                           then p\<lparr>p_totalAmount := totalAmount, p_desiredSaving := desiredSaving,
                                  p_updatedAt := Some now\<rparr>
                           else p) (spendingPlans db)
      in (find (\<lambda>p. p_id p = planId) rows, db\<lparr>spendingPlans := rows\<rparr>))"

definition getDailySpending :: "database \<Rightarrow> int \<Rightarrow> dailyEntry list" where
  "getDailySpending db planId = filter (\<lambda>e. d_planId e = planId) (dailySpending db)"

definition upsertDailySpending ::
  "database \<Rightarrow> int \<Rightarrow> string \<Rightarrow> string \<Rightarrow> int \<Rightarrow> (db_error + dailyEntry option) \<times> database" where
  "upsertDailySpending db planId dt spent now =
     (case find (\<lambda>e. d_planId e = planId \<and> d_date e = dt) (dailySpending db) of
        Some existing \<Rightarrow>
          (let rows = map (\<lambda>e. if d_id e = d_id existing
                                then e\<lparr>d_spent := spent, d_updatedAt := Some now\<rparr>
                                else e) (dailySpending db)
           in (Inr (find (\<lambda>e. d_id e = d_id existing) rows), db\<lparr>dailySpending := rows\<rparr>))
      | None \<Rightarrow>
          (case insert_daily db planId dt spent now of
             (Inl err, db1) \<Rightarrow> (Inl err, db1)
           | (Inr created, db1) \<Rightarrow> (Inr (Some created), db1)))"

text \<open>A history of requests, each with the clock reading at which it is served, run one
  after the other from the empty store.\<close>

datatype request =
    GetOrCreatePlan int int
  | UpdatePlanSettings int string string
  | GetDailySpending int
  | UpsertDailySpending int string string

fun serve :: "database \<Rightarrow> request \<times> int \<Rightarrow> database" where
  "serve db (GetOrCreatePlan year month, now) = snd (getOrCreatePlan db year month now)"
| "serve db (UpdatePlanSettings planId amount saving, now) =
     snd (updatePlanSettings db planId amount saving now)"
| "serve db (GetDailySpending planId, now) = db"
| "serve db (UpsertDailySpending planId dt spent, now) =
     snd (upsertDailySpending db planId dt spent now)"

definition run :: "(request \<times> int) list \<Rightarrow> database" where
  "run reqs = foldl serve empty_db reqs"

text \<open>The keys of the two tables, and what the constraints keep true of a store.\<close>

definition plan_key :: "spendingPlan \<Rightarrow> int \<times> int" where
  "plan_key p = (p_year p, p_month p)"

definition entry_key :: "dailyEntry \<Rightarrow> int \<times> string" where
  "entry_key e = (d_planId e, d_date e)"

definition db_ok :: "database \<Rightarrow> bool" where
  "db_ok db =
     (distinct (map p_id (spendingPlans db)) \<and>
      distinct (map plan_key (spendingPlans db)) \<and>
      distinct (map d_id (dailySpending db)) \<and>
      distinct (map entry_key (dailySpending db)) \<and>
      list_all (\<lambda>p. p_id p < spendingPlans_seq db) (spendingPlans db) \<and>
      list_all (\<lambda>e. d_id e < dailySpending_seq db) (dailySpending db))"

section \<open>The allowance computation\<close>

text \<open>
  The body of the memo \<open>spendingData\<close>. One row of \<open>days\<close> holds the fields the
  computation decides; \<open>formattedDate\<close>, a display text made from \<open>date\<close> alone, is left
  out. The clock is an argument: \<open>now\<close> is the time value \<open>new Date()\<close> returns.
\<close>

record dayRow =
  date :: int
  dateKey :: string
  allowedSpending :: number
  spent :: number
  isPast :: bool
  isToday :: bool

text \<open>\<open>parseFloat(x) || 0\<close>.\<close>

definition parse_or_0 :: "string \<Rightarrow> number" where
  "parse_or_0 x = num_or (parseFloat x) (Finite 0)"

text \<open>The map from date key to spent amount: the fetched entries in order, then the
  local inputs in the order of \<open>Object.entries\<close>, a later assignment replacing an
  earlier one. \<open>dailyQuery.data\<close> is undefined until the entries are loaded.\<close>

definition build_spentMap ::
  "dailyEntry list option \<Rightarrow> (string \<times> string) list \<Rightarrow> (string \<rightharpoonup> number)" where
  "build_spentMap data spentInputs =
     (let m0 = (case data of
                  None \<Rightarrow> Map.empty
                | Some entries \<Rightarrow>
                    foldl (\<lambda>m entry. m(d_date entry \<mapsto> parse_or_0 (d_spent entry)))
                      Map.empty entries)
      in foldl (\<lambda>m (dateKey, v). m(dateKey \<mapsto> parse_or_0 v)) m0 spentInputs)"

text \<open>One turn of the loop over the days. The state is \<open>(days, rollover, remainingDays)\<close>.\<close>

definition loop_step ::
  "int \<Rightarrow> int \<Rightarrow> int \<Rightarrow> number \<Rightarrow> (string \<rightharpoonup> number) \<Rightarrow> int \<Rightarrow>
   dayRow list \<times> number \<times> int \<Rightarrow> int \<Rightarrow> dayRow list \<times> number \<times> int" where
  "loop_step year month daysCount availableMoney spentMap today st day =
     (case st of (days0, rollover0, remainingDays0) \<Rightarrow>
        (let dt = setHours0 (newDate year month day);
             dk = formatDateKey year month day;
             past = (dt < today);
             tod = (dt = today);
             sp = (case spentMap dk of None \<Rightarrow> Finite 0 | Some v \<Rightarrow> v);
             daysFromHere = daysCount - day + 1;
             rollover1 = (if past
                          then num_add rollover0
                                 (num_sub (num_div availableMoney (num_of_int daysCount)) sp)
                          else rollover0);
             remainingDays1 = (if past then remainingDays0 - 1 else remainingDays0);
             allowed = (if past then num_div availableMoney (num_of_int daysCount)
                        else num_div
                               (num_add
                                  (num_mul (num_div availableMoney (num_of_int daysCount))
                                     (num_of_int (daysCount - day + 1)))
                                  rollover1)
                               (num_of_int daysFromHere))
         in (days0 @ [\<lparr>date = dt, dateKey = dk, allowedSpending = allowed, spent = sp,
                        isPast = past, isToday = tod\<rparr>],
             rollover1, remainingDays1)))"

text \<open>The loop \<open>for (let day = 1; day <= daysCount; day++)\<close>, entered at \<open>day\<close>.\<close>

function days_loop ::
  "int \<Rightarrow> int \<Rightarrow> int \<Rightarrow> number \<Rightarrow> (string \<rightharpoonup> number) \<Rightarrow> int \<Rightarrow> int \<Rightarrow>
   dayRow list \<times> number \<times> int \<Rightarrow> dayRow list \<times> number \<times> int" where
  "days_loop year month daysCount availableMoney spentMap today day st =
     (if day \<le> daysCount
      then days_loop year month daysCount availableMoney spentMap today (day + 1)
             (loop_step year month daysCount availableMoney spentMap today st day)
      else st)"
  by pat_completeness auto
termination
  by (relation "measure (\<lambda>(year, month, daysCount, availableMoney, spentMap, today, day, st).
                   nat (daysCount + 1 - day))") auto

declare days_loop.simps [simp del]

text \<open>What the memo returns.\<close>

record spending =
  days :: "dayRow list"
  totalAmount :: number
  desiredSaving :: number
  availableMoney :: number
  baseDailyAllowance :: number
  rollover :: number

text \<open>The computation from the parsed amounts on: the specification calls this part
  \<open>computeAllowances\<close>. \<open>today\<close> is the clock reading set back to midnight.\<close>

definition computeAllowances ::
  "int \<Rightarrow> int \<Rightarrow> number \<Rightarrow> number \<Rightarrow> (string \<rightharpoonup> number) \<Rightarrow> int \<Rightarrow> spending" where
  "computeAllowances year month amount saving spentMap today =
     (let daysCount = getDaysInMonth year month;
          avail = num_sub amount saving
      in case days_loop year month daysCount avail spentMap today 1
                ([], Finite 0, daysCount) of
           (ds, r, remainingDays) \<Rightarrow>
             \<lparr>days = ds, totalAmount = amount, desiredSaving = saving,
              availableMoney = avail,
              baseDailyAllowance = num_div avail (num_of_int daysCount),
              rollover = r\<rparr>)"

definition spendingData ::
  "int \<Rightarrow> int \<Rightarrow> string \<Rightarrow> string \<Rightarrow> dailyEntry list option \<Rightarrow> (string \<times> string) list \<Rightarrow> int
   \<Rightarrow> spending" where
  "spendingData year month displayTotal displaySaving data spentInputs now =
     computeAllowances year month (parse_or_0 displayTotal) (parse_or_0 displaySaving)
       (build_spentMap data spentInputs) (setHours0 now)"



text \<open>
  The words of the claims about one day of the month: its date at midnight, the amount
  recorded for it (0 when there is none), the days that lie strictly before today, and
  the sum of \<open>base - spent\<close> over a list of days, taken from the left.
\<close>

definition day_date :: "int \<Rightarrow> int \<Rightarrow> int \<Rightarrow> int" where
  "day_date year month day = setHours0 (newDate year month day)"

definition day_spent :: "(string \<rightharpoonup> number) \<Rightarrow> int \<Rightarrow> int \<Rightarrow> int \<Rightarrow> number" where
  "day_spent spentMap year month day =
     (case spentMap (formatDateKey year month day) of None \<Rightarrow> Finite 0 | Some v \<Rightarrow> v)"

definition past_days :: "int \<Rightarrow> int \<Rightarrow> int \<Rightarrow> int list" where
  "past_days year month today =
     filter (\<lambda>d. day_date year month d < today) [1..getDaysInMonth year month]"

definition rollover_sum :: "number \<Rightarrow> (int \<Rightarrow> number) \<Rightarrow> int list \<Rightarrow> number" where
  "rollover_sum base sp ds = foldl (\<lambda>r d. num_add r (num_sub base (sp d))) (Finite 0) ds"

text \<open>The row the loop appends for a day, given the rollover after that day.\<close>

definition row_of ::
  "int \<Rightarrow> int \<Rightarrow> int \<Rightarrow> number \<Rightarrow> (string \<rightharpoonup> number) \<Rightarrow> int \<Rightarrow> int \<Rightarrow> dayRow" where
  "row_of year month n avail spentMap today day =
     (let base = num_div avail (num_of_int n);
          past = (day_date year month day < today);
          r = rollover_sum base (day_spent spentMap year month)
                (filter (\<lambda>d. day_date year month d < today) [1..day])
      in \<lparr>date = day_date year month day,
          dateKey = formatDateKey year month day,
          allowedSpending =
            (if past then base
             else num_div (num_add (num_mul base (num_of_int (n - day + 1))) r)
                    (num_of_int (n - day + 1))),
          spent = day_spent spentMap year month day,
          isPast = past,
          isToday = (day_date year month day = today)\<rparr>)"

section \<open>Properties of the day arithmetic\<close>










text \<open>A day within a year is found again by \<open>YearFromTime\<close> and \<open>DayWithinYear\<close>, and the
  day before the first of the next month is the last day of the month.\<close>

lemma Day_MakeDate: "Day (MakeDate d 0) = d"
  by (simp add: Day_def MakeDate_def msPerDay_def)








lemma june_2025: "getDaysInMonth 2025 5 = 30"
  by code_simp

section \<open>Properties of the numbers\<close>


lemma num_sub_zero: "num_sub b (Finite 0) = b"
  by (cases b) (simp_all add: num_sub_def)




text \<open>The definitions a literal text is evaluated with.\<close>

lemmas parse_defs =
  parse_or_0_def num_or_def parseFloat_def Let_def is_white_def is_digit_def
  digits_val_def digit_val_def exponent_part_def scale10_def

section \<open>Properties of the loop over the days\<close>

text \<open>The dates of a month ascend with the day, and the loop returns one row per day
  together with the sum over the days before today.\<close>

lemma MakeDay_day: "MakeDay yr m d = MakeDay yr m 1 + (d - 1)"
  by (simp add: MakeDay_def Let_def)

lemma day_date_eq:
  "day_date year month day =
     msPerDay * (MakeDay (if 0 \<le> year \<and> year \<le> 99 then 1900 + year else year) month 1 + (day - 1))"
  unfolding day_date_def setHours0_def newDate_def Let_def Day_MakeDate
  by (subst MakeDay_day) (simp add: MakeDate_def)

lemma day_date_less_iff: "day_date year month d < day_date year month e \<longleftrightarrow> d < e"
  by (simp add: day_date_eq msPerDay_def)

lemma day_date_mono: "d \<le> e \<Longrightarrow> day_date year month d \<le> day_date year month e"
  by (simp add: day_date_eq msPerDay_def)

lemma rollover_sum_snoc:
  "rollover_sum base sp (ds @ [d]) = num_add (rollover_sum base sp ds) (num_sub base (sp d))"
  by (simp add: rollover_sum_def)

lemma loop_step_alt:
  "loop_step year month n avail spentMap today (ds, r, k) day =
     (let base = num_div avail (num_of_int n);
          past = (day_date year month day < today);
          r1 = (if past then num_add r (num_sub base (day_spent spentMap year month day)) else r)
      in (ds @ [\<lparr>date = day_date year month day,
                  dateKey = formatDateKey year month day,
                  allowedSpending =
                    (if past then base
                     else num_div (num_add (num_mul base (num_of_int (n - day + 1))) r1)
                            (num_of_int (n - day + 1))),
                  spent = day_spent spentMap year month day,
                  isPast = past,
                  isToday = (day_date year month day = today)\<rparr>],
          r1, if past then k - 1 else k))"
  by (simp add: loop_step_def Let_def day_date_def day_spent_def)

lemma loop_prefix:
  "foldl (loop_step year month n avail spentMap today) ([], Finite 0, n) [1..int k] =
     (map (row_of year month n avail spentMap today) [1..int k],
      rollover_sum (num_div avail (num_of_int n)) (day_spent spentMap year month)
        (filter (\<lambda>d. day_date year month d < today) [1..int k]),
      n - int (length (filter (\<lambda>d. day_date year month d < today) [1..int k])))"
proof (induction k)
  case 0
  show ?case by (simp add: rollover_sum_def)
next
  case (Suc k)
  have up: "[1..int (Suc k)] = [1..int k] @ [int k + 1]"
    using upto_rec2[of 1 "int (Suc k)"] by (simp add: add.commute)
  have up': "[1..int k + 1] = [1..int k] @ [int k + 1]"
    using up by (simp add: add.commute)
  show ?case
    unfolding up foldl_append Suc.IH
    by (simp add: loop_step_alt row_of_def Let_def rollover_sum_snoc up')
qed

lemma upto_nat: "0 \<le> n \<Longrightarrow> [1..n] = [1..int (nat n)]"
  by simp

lemma loop_result:
  "foldl (loop_step year month n avail spentMap today) ([], Finite 0, n) [1..n] =
     (map (row_of year month n avail spentMap today) [1..n],
      rollover_sum (num_div avail (num_of_int n)) (day_spent spentMap year month)
        (filter (\<lambda>d. day_date year month d < today) [1..n]),
      n - int (length (filter (\<lambda>d. day_date year month d < today) [1..n])))"
proof (cases "0 \<le> n")
  case True
  then show ?thesis using loop_prefix[of year month n avail spentMap today "nat n"] by simp
next
  case False
  then show ?thesis by (simp add: rollover_sum_def)
qed

lemma days_loop_foldl:
  "days_loop year month n avail spentMap today d st =
     foldl (loop_step year month n avail spentMap today) st [d..n]"
proof (induction year month n avail spentMap today d st rule: days_loop.induct)
  case (1 year month n avail spentMap today d st)
  show ?case
  proof (cases "d \<le> n")
    case True
    with "1.IH" show ?thesis
      by (subst days_loop.simps) (simp add: upto_rec1[of d n])
  next
    case False
    then show ?thesis
      by (subst days_loop.simps) simp
  qed
qed

lemma computeAllowances_eq:
  "computeAllowances year month amount saving spentMap today =
     \<lparr>days = map (row_of year month (getDaysInMonth year month) (num_sub amount saving) spentMap today)
               [1..getDaysInMonth year month],
      totalAmount = amount, desiredSaving = saving,
      availableMoney = num_sub amount saving,
      baseDailyAllowance = num_div (num_sub amount saving) (num_of_int (getDaysInMonth year month)),
      rollover = rollover_sum (num_div (num_sub amount saving) (num_of_int (getDaysInMonth year month)))
                   (day_spent spentMap year month) (past_days year month today)\<rparr>"
  by (simp add: computeAllowances_def Let_def days_loop_foldl loop_result past_days_def)

lemma computeAllowances_fields:
  "totalAmount (computeAllowances year month amount saving spentMap today) = amount"
  "desiredSaving (computeAllowances year month amount saving spentMap today) = saving"
  "availableMoney (computeAllowances year month amount saving spentMap today)
     = num_sub amount saving"
  "baseDailyAllowance (computeAllowances year month amount saving spentMap today)
     = num_div (num_sub amount saving) (num_of_int (getDaysInMonth year month))"
  "rollover (computeAllowances year month amount saving spentMap today)
     = rollover_sum (num_div (num_sub amount saving) (num_of_int (getDaysInMonth year month)))
         (day_spent spentMap year month) (past_days year month today)"
  by (simp_all add: computeAllowances_eq)

text \<open>The days before today are the first days of the month.\<close>

lemma filter_past_upto:
  assumes "\<not> day_date year month d < today" "1 \<le> d" "d \<le> n"
  shows "filter (\<lambda>e. day_date year month e < today) [1..n] =
         filter (\<lambda>e. day_date year month e < today) [1..d - 1]"
    and "filter (\<lambda>e. day_date year month e < today) [1..d] =
         filter (\<lambda>e. day_date year month e < today) [1..d - 1]"
proof -
  have notlater: "\<not> day_date year month e < today" if "d \<le> e" for e
    using assms(1) day_date_mono[OF that, of year month] by linarith
  have "[1..n] = [1..d - 1] @ [d..n]"
    using assms(2,3) upto_split1[of 1 "d" n] by simp
  moreover have "filter (\<lambda>e. day_date year month e < today) [d..n] = []"
    using notlater by (simp add: filter_empty_conv)
  ultimately show "filter (\<lambda>e. day_date year month e < today) [1..n] =
         filter (\<lambda>e. day_date year month e < today) [1..d - 1]" by simp
  have "[1..d] = [1..d - 1] @ [d]"
    using assms(2) upto_rec2[of 1 d] by simp
  then show "filter (\<lambda>e. day_date year month e < today) [1..d] =
         filter (\<lambda>e. day_date year month e < today) [1..d - 1]"
    using assms(1) by simp
qed

lemma days_nth:
  assumes "1 \<le> d" "d \<le> getDaysInMonth year month"
  shows "days (computeAllowances year month amount saving spentMap today) ! nat (d - 1) =
         row_of year month (getDaysInMonth year month) (num_sub amount saving) spentMap today d"
proof -
  have "[1..getDaysInMonth year month] ! nat (d - 1) = d"
    using assms nth_upto[of 1 "nat (d - 1)" "getDaysInMonth year month"] by simp
  moreover have "nat (d - 1) < length [1..getDaysInMonth year month]"
    using assms by simp
  ultimately show ?thesis
    by (simp add: computeAllowances_eq)
qed

lemma days_length:
  "length (days (computeAllowances year month amount saving spentMap today)) =
     nat (getDaysInMonth year month)"
  by (simp add: computeAllowances_eq)

lemma future_row:
  assumes "1 \<le> d" "d \<le> getDaysInMonth year month" "today \<le> day_date year month d"
  shows "row_of year month (getDaysInMonth year month) avail spentMap today d =
     \<lparr>date = day_date year month d,
      dateKey = formatDateKey year month d,
      allowedSpending =
        num_div
          (num_add
             (num_mul (num_div avail (num_of_int (getDaysInMonth year month)))
                (num_of_int (getDaysInMonth year month - d + 1)))
             (rollover_sum (num_div avail (num_of_int (getDaysInMonth year month)))
                (day_spent spentMap year month) (past_days year month today)))
          (num_of_int (getDaysInMonth year month - d + 1)),
      spent = day_spent spentMap year month d,
      isPast = False,
      isToday = (day_date year month d = today)\<rparr>"
proof -
  have np: "\<not> day_date year month d < today" using assms(3) by simp
  show ?thesis
    unfolding row_of_def Let_def past_days_def
      filter_past_upto(1)[OF np assms(1,2)] filter_past_upto(2)[OF np assms(1,2)]
    using np by simp
qed

lemma past_row:
  assumes "day_date year month d < today"
  shows "row_of year month n avail spentMap today d =
     \<lparr>date = day_date year month d,
      dateKey = formatDateKey year month d,
      allowedSpending = num_div avail (num_of_int n),
      spent = day_spent spentMap year month d,
      isPast = True,
      isToday = False\<rparr>"
  using assms by (simp add: row_of_def Let_def)










section \<open>The claims about the allowance computation\<close>

text \<open>
  Claim C1. A day of the month that is not strictly before today is reported as not past,
  and its allowed spending is the base daily allowance times the days remaining from
  that day on (\<open>daysCount - day + 1\<close>), plus the rollover summed over all days before
  today, divided by those remaining days.
\<close>

theorem future_allowance:
  assumes "1 \<le> day" and "day \<le> getDaysInMonth year month"
    and "\<not> day_date year month day < today"
  shows "date (days (computeAllowances year month amount saving spentMap today) ! nat (day - 1))
           = day_date year month day
     \<and> isPast (days (computeAllowances year month amount saving spentMap today) ! nat (day - 1))
           = False
     \<and> allowedSpending
         (days (computeAllowances year month amount saving spentMap today) ! nat (day - 1)) =
       num_div
         (num_add
            (num_mul
               (baseDailyAllowance (computeAllowances year month amount saving spentMap today))
               (num_of_int (getDaysInMonth year month - day + 1)))
            (rollover_sum
               (baseDailyAllowance (computeAllowances year month amount saving spentMap today))
               (day_spent spentMap year month) (past_days year month today)))
         (num_of_int (getDaysInMonth year month - day + 1))"
proof -
  from assms(3) have le: "today \<le> day_date year month day" by simp
  show ?thesis
    unfolding days_nth[OF assms(1,2)] future_row[OF assms(1,2) le]
    by (simp add: computeAllowances_eq)
qed

text \<open>
  The scenario of the claim: June 2025 (30 days), 3000 to spend, nothing to save, 50
  spent on day 1, and day 2 is today. Day 2 is allowed \<open>(100 * 29 + 50) / 29\<close>.
\<close>

theorem future_allowance_witness:
  "1 \<le> (2::int) \<and> 2 \<le> getDaysInMonth 2025 5
   \<and> \<not> day_date 2025 5 2 < day_date 2025 5 2
   \<and> allowedSpending
        (days (computeAllowances 2025 5 (Finite 3000) (Finite 0)
                 [''2025-06-01'' \<mapsto> Finite 50] (day_date 2025 5 2)) ! nat (2 - 1))
      = Finite ((100 * 29 + 50) / 29)"
proof -
  note n = june_2025
  have pd: "past_days 2025 5 (day_date 2025 5 2) = [1]" by code_simp
  have sp: "day_spent [''2025-06-01'' \<mapsto> Finite 50] 2025 5 1 = Finite 50" by code_simp
  have base: "baseDailyAllowance (computeAllowances 2025 5 (Finite 3000) (Finite 0)
                 [''2025-06-01'' \<mapsto> Finite 50] (day_date 2025 5 2)) = Finite 100"
    by (simp add: computeAllowances_fields n num_sub_def num_of_int_def)
  have h: "1 \<le> (2::int)" "2 \<le> getDaysInMonth 2025 5" "\<not> day_date 2025 5 2 < day_date 2025 5 2"
    by (simp_all add: n)
  from future_allowance[OF h, of "Finite 3000" "Finite 0" "[''2025-06-01'' \<mapsto> Finite 50]"]
  show ?thesis
    unfolding base pd n
    by (simp add: rollover_sum_def sp num_sub_def num_of_int_def)
qed



text \<open>
  Claim C3. A day strictly before today is reported as past, and its allowed spending is
  the base daily allowance, that is the available money divided by the number of days
  of the month. It is the same whatever amounts are recorded.
\<close>

theorem past_allowance:
  assumes "1 \<le> day" and "day \<le> getDaysInMonth year month"
    and "day_date year month day < today"
  shows "isPast (days (computeAllowances year month amount saving spentMap today) ! nat (day - 1))
     \<and> allowedSpending
         (days (computeAllowances year month amount saving spentMap today) ! nat (day - 1))
       = baseDailyAllowance (computeAllowances year month amount saving spentMap today)
     \<and> baseDailyAllowance (computeAllowances year month amount saving spentMap today)
       = num_div (availableMoney (computeAllowances year month amount saving spentMap today))
           (num_of_int (getDaysInMonth year month))
     \<and> allowedSpending
         (days (computeAllowances year month amount saving spentMap' today) ! nat (day - 1))
       = allowedSpending
         (days (computeAllowances year month amount saving spentMap today) ! nat (day - 1))"
  unfolding days_nth[OF assms(1,2)] past_row[OF assms(3)]
  by (simp add: computeAllowances_eq)

text \<open>In the scenario of claim C1, day 1 lies before today and is allowed 100.\<close>

theorem past_allowance_witness:
  "1 \<le> (1::int) \<and> 1 \<le> getDaysInMonth 2025 5 \<and> day_date 2025 5 1 < day_date 2025 5 2
   \<and> allowedSpending
        (days (computeAllowances 2025 5 (Finite 3000) (Finite 0)
                 [''2025-06-01'' \<mapsto> Finite 50] (day_date 2025 5 2)) ! nat (1 - 1))
      = Finite 100"
proof -
  note n = june_2025
  have h: "1 \<le> (1::int)" "1 \<le> getDaysInMonth 2025 5" "day_date 2025 5 1 < day_date 2025 5 2"
    by (simp_all add: n day_date_less_iff)
  from past_allowance[OF h, of "Finite 3000" "Finite 0" "[''2025-06-01'' \<mapsto> Finite 50]"] h
  show ?thesis
    by (simp add: computeAllowances_fields n num_sub_def num_of_int_def)
qed





section \<open>The claim about the length of a month\<close>




section \<open>The claims about parsing and the clock\<close>

text \<open>Helper facts: what \<open>parseFloat(x) || 0\<close> gives, and what the spent map holds for a
  key after the assignments of the memo.\<close>

lemma parse_or_0_NaN: "parseFloat x = NaN \<Longrightarrow> parse_or_0 x = Finite 0"
  by (simp add: parse_or_0_def num_or_def)

lemma parseFloat_empty: "parseFloat '''' = NaN"
  by (simp add: parse_defs)

lemma parse_or_0_zero: "parse_or_0 ''0'' = Finite 0"
  by (simp add: parse_defs)

lemma foldl_assign:
  "foldl (\<lambda>m (k, v). m(k \<mapsto> f v)) m0 xs k' =
     (case map_of (rev xs) k' of Some v \<Rightarrow> Some (f v) | None \<Rightarrow> m0 k')"
  by (induction xs rule: rev_induct) (auto split: option.splits)

lemma foldl_assign_entries:
  "foldl (\<lambda>m entry. m(d_date entry \<mapsto> f (d_spent entry))) m0 es k' =
     (case map_of (rev (map (\<lambda>e. (d_date e, d_spent e)) es)) k' of
        Some v \<Rightarrow> Some (f v) | None \<Rightarrow> m0 k')"
  by (induction es rule: rev_induct) (auto split: option.splits)

lemma build_spentMap_lookup:
  "build_spentMap data spentInputs k =
     (case map_of (rev spentInputs) k of
        Some v \<Rightarrow> Some (parse_or_0 v)
      | None \<Rightarrow>
          (case data of
             None \<Rightarrow> None
           | Some entries \<Rightarrow>
               (case map_of (rev (map (\<lambda>e. (d_date e, d_spent e)) entries)) k of
                  Some v \<Rightarrow> Some (parse_or_0 v) | None \<Rightarrow> None)))"
  by (cases data) (simp_all add: build_spentMap_def Let_def foldl_assign foldl_assign_entries
      split: option.splits)

lemma row_spent:
  assumes "1 \<le> d" "d \<le> getDaysInMonth year month"
  shows "spent (days (computeAllowances year month amount saving spentMap today) ! nat (d - 1))
           = day_spent spentMap year month d"
  unfolding days_nth[OF assms] by (simp add: row_of_def Let_def)

lemma same_day_same_today: "Day now = Day now' \<Longrightarrow> setHours0 now = setHours0 now'"
  by (simp add: setHours0_def)

text \<open>
  Claim C7. The memo is a total function of its inputs: it has no failing step and
  returns one row per day of the month. A total, a saving or a spent text that
  \<open>parseFloat\<close> cannot read (\<open>NaN\<close>; the empty text is one) counts as 0: the memo
  returns what it returns for the text \<open>0\<close>, and the row of a day whose last local input,
  or whose last fetched entry when there is no local input, is unreadable has spent 0.
\<close>

theorem unparseable_is_zero:
  "(parseFloat x = NaN \<longrightarrow> parse_or_0 x = Finite 0)
   \<and> parseFloat '''' = NaN
   \<and> totalAmount (spendingData year month t s data spentInputs now) = parse_or_0 t
   \<and> desiredSaving (spendingData year month t s data spentInputs now) = parse_or_0 s
   \<and> (parseFloat t = NaN \<longrightarrow>
        spendingData year month t s data spentInputs now
          = spendingData year month ''0'' s data spentInputs now)
   \<and> (parseFloat s = NaN \<longrightarrow>
        spendingData year month t s data spentInputs now
          = spendingData year month t ''0'' data spentInputs now)
   \<and> (1 \<le> day \<and> day \<le> getDaysInMonth year month
        \<and> map_of (rev spentInputs) (formatDateKey year month day) = Some v
        \<and> parseFloat v = NaN \<longrightarrow>
        spent (days (spendingData year month t s data spentInputs now) ! nat (day - 1)) = Finite 0)
   \<and> (1 \<le> day \<and> day \<le> getDaysInMonth year month
        \<and> map_of (rev spentInputs) (formatDateKey year month day) = None
        \<and> data = Some entries
        \<and> map_of (rev (map (\<lambda>e. (d_date e, d_spent e)) entries)) (formatDateKey year month day)
            = Some v
        \<and> parseFloat v = NaN \<longrightarrow>
        spent (days (spendingData year month t s data spentInputs now) ! nat (day - 1)) = Finite 0)
   \<and> length (days (spendingData year month t s data spentInputs now))
       = nat (getDaysInMonth year month)"
proof -
  have a: "parseFloat x = NaN \<longrightarrow> parse_or_0 x = Finite 0"
    by (simp add: parse_or_0_NaN)
  have c: "totalAmount (spendingData year month t s data spentInputs now) = parse_or_0 t"
    "desiredSaving (spendingData year month t s data spentInputs now) = parse_or_0 s"
    by (simp_all add: spendingData_def computeAllowances_fields)
  have e: "spendingData year month t s data spentInputs now
          = spendingData year month ''0'' s data spentInputs now" if "parseFloat t = NaN"
    using parse_or_0_NaN[OF that] by (simp add: spendingData_def parse_or_0_zero)
  have f: "spendingData year month t s data spentInputs now
          = spendingData year month t ''0'' data spentInputs now" if "parseFloat s = NaN"
    using parse_or_0_NaN[OF that] by (simp add: spendingData_def parse_or_0_zero)
  have g: "spent (days (spendingData year month t s data spentInputs now) ! nat (day - 1)) = Finite 0"
    if "1 \<le> day \<and> day \<le> getDaysInMonth year month
        \<and> map_of (rev spentInputs) (formatDateKey year month day) = Some v
        \<and> parseFloat v = NaN"
  proof -
    from that have d: "1 \<le> day" "day \<le> getDaysInMonth year month" by simp_all
    from that show ?thesis
      unfolding spendingData_def row_spent[OF d]
      by (simp add: day_spent_def build_spentMap_lookup parse_or_0_NaN)
  qed
  have h: "spent (days (spendingData year month t s data spentInputs now) ! nat (day - 1)) = Finite 0"
    if "1 \<le> day \<and> day \<le> getDaysInMonth year month
        \<and> map_of (rev spentInputs) (formatDateKey year month day) = None
        \<and> data = Some entries
        \<and> map_of (rev (map (\<lambda>e. (d_date e, d_spent e)) entries)) (formatDateKey year month day)
            = Some v
        \<and> parseFloat v = NaN"
  proof -
    from that have d: "1 \<le> day" "day \<le> getDaysInMonth year month" by simp_all
    from that show ?thesis
      unfolding spendingData_def row_spent[OF d]
      by (simp add: day_spent_def build_spentMap_lookup parse_or_0_NaN)
  qed
  have i: "length (days (spendingData year month t s data spentInputs now))
       = nat (getDaysInMonth year month)"
    by (simp add: spendingData_def days_length)
  from a parseFloat_empty c e f g h i show ?thesis by blast
qed

text \<open>June 2025 with the total \<open>abc\<close>, an empty saving and \<open>-\<close> typed for day 3.\<close>

theorem unparseable_is_zero_witness:
  "parseFloat ''abc'' = NaN \<and> parseFloat '''' = NaN \<and> parseFloat ''-'' = NaN
   \<and> totalAmount (spendingData 2025 5 ''abc'' '''' None [(''2025-06-03'', ''-'')] 0) = Finite 0
   \<and> desiredSaving (spendingData 2025 5 ''abc'' '''' None [(''2025-06-03'', ''-'')] 0) = Finite 0
   \<and> spendingData 2025 5 ''abc'' '''' None [(''2025-06-03'', ''-'')] 0
       = spendingData 2025 5 ''0'' ''0'' None [(''2025-06-03'', ''-'')] 0
   \<and> spent (days (spendingData 2025 5 ''abc'' '''' None [(''2025-06-03'', ''-'')] 0) ! nat (3 - 1))
       = Finite 0
   \<and> length (days (spendingData 2025 5 ''abc'' '''' None [(''2025-06-03'', ''-'')] 0)) = 30"
proof -
  have p: "parseFloat ''abc'' = NaN" "parseFloat '''' = NaN" "parseFloat ''-'' = NaN"
    by (simp_all add: parse_defs)
  note n = june_2025
  have k: "map_of (rev [(''2025-06-03'', ''-'')]) (formatDateKey 2025 5 3) = Some ''-''"
    by code_simp
  have d: "1 \<le> (3::int)" "3 \<le> getDaysInMonth 2025 5" by (simp_all add: n)
  define X where "X = spendingData 2025 5 ''abc'' '''' None [(''2025-06-03'', ''-'')] 0"
  note T1 = unparseable_is_zero[of "''abc''" 2025 5 "''abc''" "''''" None "[(''2025-06-03'', ''-'')]" 0
      3 "''-''" "[]", folded X_def]
  note T2 = unparseable_is_zero[of "''''" 2025 5 "''0''" "''''" None "[(''2025-06-03'', ''-'')]" 0
      3 "''-''" "[]"]
  from T1 have "totalAmount X = parse_or_0 ''abc''" by blast
  moreover from T1 p have "parse_or_0 ''abc'' = Finite 0" by blast
  ultimately have a: "totalAmount X = Finite 0" by (rule trans)
  from T1 have "desiredSaving X = parse_or_0 ''''" by blast
  moreover from T2 p have "parse_or_0 '''' = Finite 0" by blast
  ultimately have b: "desiredSaving X = Finite 0" by (rule trans)
  from T1 p have c1: "X = spendingData 2025 5 ''0'' '''' None [(''2025-06-03'', ''-'')] 0"
    by blast
  from T2 p have c2: "spendingData 2025 5 ''0'' '''' None [(''2025-06-03'', ''-'')] 0
       = spendingData 2025 5 ''0'' ''0'' None [(''2025-06-03'', ''-'')] 0"
    by blast
  from c1 c2 have c: "X = spendingData 2025 5 ''0'' ''0'' None [(''2025-06-03'', ''-'')] 0"
    by (rule trans)
  from T1 p k d have e: "spent (days X ! nat (3 - 1)) = Finite 0"
    by blast
  from T1 have "length (days X) = nat (getDaysInMonth 2025 5)" by blast
  then have f: "length (days X) = 30" by (simp add: n)
  from p a b c e f show ?thesis unfolding X_def by blast
qed



section \<open>The claims about the store\<close>


lemma distinct_filter_singleton:
  "distinct (map f xs) \<Longrightarrow> x \<in> set xs \<Longrightarrow> filter (\<lambda>y. f y = f x) xs = [x]"
proof (induction xs)
  case Nil
  then show ?case by simp
next
  case (Cons a xs)
  show ?case
  proof (cases "a = x")
    case True
    from Cons.prems(1) True have notin: "f x \<notin> f ` set xs" by simp
    have "f y \<noteq> f x" if "y \<in> set xs" for y
      using that notin by (metis imageI)
    then have "filter (\<lambda>y. f y = f x) xs = []"
      by (simp add: filter_empty_conv)
    with True show ?thesis by simp
  next
    case False
    with Cons.prems have "x \<in> set xs" "f a \<noteq> f x" by auto
    with Cons.IH Cons.prems(1) show ?thesis by simp
  qed
qed























text \<open>
  Claim C9. \<open>updatePlanSettings\<close> leaves the daily entries and both id sequences as they
  are and keeps the number and the order of the plans. A plan with another id is
  unchanged; a plan with the given id changes in total amount, desired saving and update
  time only, so its id, year, month and creation time stay. In a store that satisfies
  the constraints at most one plan has the given id.
\<close>

theorem updatePlanSettings_frame:
  "dailySpending (snd (updatePlanSettings db planId amount saving now)) = dailySpending db
   \<and> spendingPlans_seq (snd (updatePlanSettings db planId amount saving now))
       = spendingPlans_seq db
   \<and> dailySpending_seq (snd (updatePlanSettings db planId amount saving now))
       = dailySpending_seq db
   \<and> length (spendingPlans (snd (updatePlanSettings db planId amount saving now)))
       = length (spendingPlans db)
   \<and> (\<forall>i < length (spendingPlans db).
         (p_id (spendingPlans db ! i) \<noteq> planId \<longrightarrow>
            spendingPlans (snd (updatePlanSettings db planId amount saving now)) ! i
              = spendingPlans db ! i)
       \<and> (p_id (spendingPlans db ! i) = planId \<longrightarrow>
            spendingPlans (snd (updatePlanSettings db planId amount saving now)) ! i
              = (spendingPlans db ! i)\<lparr>p_totalAmount := amount, p_desiredSaving := saving,
                                         p_updatedAt := Some now\<rparr>)
       \<and> p_id (spendingPlans (snd (updatePlanSettings db planId amount saving now)) ! i)
           = p_id (spendingPlans db ! i)
       \<and> p_year (spendingPlans (snd (updatePlanSettings db planId amount saving now)) ! i)
           = p_year (spendingPlans db ! i)
       \<and> p_month (spendingPlans (snd (updatePlanSettings db planId amount saving now)) ! i)
           = p_month (spendingPlans db ! i)
       \<and> p_createdAt (spendingPlans (snd (updatePlanSettings db planId amount saving now)) ! i)
           = p_createdAt (spendingPlans db ! i))
   \<and> (db_ok db \<longrightarrow> length (filter (\<lambda>p. p_id p = planId) (spendingPlans db)) \<le> 1)"
proof -
  have single: "length (filter (\<lambda>p. p_id p = planId) (spendingPlans db)) \<le> 1" if "db_ok db"
  proof (cases "planId \<in> set (map p_id (spendingPlans db))")
    case False
    then have "filter (\<lambda>p. p_id p = planId) (spendingPlans db) = []"
      by (auto simp: filter_empty_conv)
    then show ?thesis by simp
  next
    case True
    then obtain p where p: "p \<in> set (spendingPlans db)" "p_id p = planId" by auto
    from that have "distinct (map p_id (spendingPlans db))" by (simp add: db_ok_def)
    from distinct_filter_singleton[OF this p(1)] p(2) show ?thesis by simp
  qed
  show ?thesis
    using single by (simp add: updatePlanSettings_def Let_def)
qed

text \<open>Two plans and one daily entry; the settings of plan 1 are updated.\<close>

theorem updatePlanSettings_frame_witness:
  "spendingPlans
     (snd (updatePlanSettings
             (run [(GetOrCreatePlan 2025 5, 10), (GetOrCreatePlan 2025 6, 11),
                   (UpsertDailySpending 1 ''2025-06-01'' ''50'', 20)])
             1 ''3000'' ''200'' 50))
     = [\<lparr>p_id = 1, p_year = 2025, p_month = 5, p_totalAmount = ''3000'',
         p_desiredSaving = ''200'', p_createdAt = Some 10, p_updatedAt = Some 50\<rparr>,
        \<lparr>p_id = 2, p_year = 2025, p_month = 6, p_totalAmount = ''0'',
         p_desiredSaving = ''0'', p_createdAt = Some 11, p_updatedAt = Some 11\<rparr>]
   \<and> dailySpending
     (snd (updatePlanSettings
             (run [(GetOrCreatePlan 2025 5, 10), (GetOrCreatePlan 2025 6, 11),
                   (UpsertDailySpending 1 ''2025-06-01'' ''50'', 20)])
             1 ''3000'' ''200'' 50))
     = dailySpending (run [(GetOrCreatePlan 2025 5, 10), (GetOrCreatePlan 2025 6, 11),
                   (UpsertDailySpending 1 ''2025-06-01'' ''50'', 20)])
   \<and> spendingPlans
     (snd (updatePlanSettings
             (run [(GetOrCreatePlan 2025 5, 10), (GetOrCreatePlan 2025 6, 11),
                   (UpsertDailySpending 1 ''2025-06-01'' ''50'', 20)])
             1 ''3000'' ''200'' 50)) ! 1
     = spendingPlans (run [(GetOrCreatePlan 2025 5, 10), (GetOrCreatePlan 2025 6, 11),
                   (UpsertDailySpending 1 ''2025-06-01'' ''50'', 20)]) ! 1"
proof -
  define db where "db = run [(GetOrCreatePlan 2025 5, 10), (GetOrCreatePlan 2025 6, 11),
                   (UpsertDailySpending 1 ''2025-06-01'' ''50'', 20)]"
  have plans: "spendingPlans db =
      [\<lparr>p_id = 1, p_year = 2025, p_month = 5, p_totalAmount = ''0'',
         p_desiredSaving = ''0'', p_createdAt = Some 10, p_updatedAt = Some 10\<rparr>,
        \<lparr>p_id = 2, p_year = 2025, p_month = 6, p_totalAmount = ''0'',
         p_desiredSaving = ''0'', p_createdAt = Some 11, p_updatedAt = Some 11\<rparr>]"
    unfolding db_def by code_simp
  have v: "spendingPlans (snd (updatePlanSettings db 1 ''3000'' ''200'' 50))
     = [\<lparr>p_id = 1, p_year = 2025, p_month = 5, p_totalAmount = ''3000'',
         p_desiredSaving = ''200'', p_createdAt = Some 10, p_updatedAt = Some 50\<rparr>,
        \<lparr>p_id = 2, p_year = 2025, p_month = 6, p_totalAmount = ''0'',
         p_desiredSaving = ''0'', p_createdAt = Some 11, p_updatedAt = Some 11\<rparr>]"
    by (simp add: updatePlanSettings_def Let_def plans)
  note T = updatePlanSettings_frame[of db 1 "''3000''" "''200''" 50]
  from T have d: "dailySpending (snd (updatePlanSettings db 1 ''3000'' ''200'' 50)) = dailySpending db"
    by blast
  from T have "\<forall>i < length (spendingPlans db).
         (p_id (spendingPlans db ! i) \<noteq> 1 \<longrightarrow>
            spendingPlans (snd (updatePlanSettings db 1 ''3000'' ''200'' 50)) ! i
              = spendingPlans db ! i)"
    by blast
  then have "(1::nat) < length (spendingPlans db) \<longrightarrow> p_id (spendingPlans db ! 1) \<noteq> 1 \<longrightarrow>
            spendingPlans (snd (updatePlanSettings db 1 ''3000'' ''200'' 50)) ! 1
              = spendingPlans db ! 1"
    by blast
  then have e: "spendingPlans (snd (updatePlanSettings db 1 ''3000'' ''200'' 50)) ! 1
              = spendingPlans db ! 1"
    by (simp add: plans)
  from v d e show ?thesis unfolding db_def by blast
qed

end
